theory Spec2Isabelle
  imports Main "HOL-Library.AList"
begin

section \<open>Python values\<close>

text \<open>
  A Python \<open>str\<close> is a sequence of Unicode code points. The labels of this program are
  Chinese, so a character is modelled by its code point (a natural number) and not by an
  8-bit \<open>char\<close>. \<open>ascii\<close> writes an ASCII literal of the source as such a string.
\<close>

type_synonym ustring = "nat list"

definition ascii :: "string \<Rightarrow> ustring" where
  "ascii s = map of_char s"

text \<open>
  The values \<open>json.loads\<close> returns: \<open>None\<close>, \<open>bool\<close>, \<open>int\<close>, \<open>float\<close> (mantissa and
  exponent; the program never inspects a number), \<open>str\<close>, \<open>list\<close> and \<open>dict\<close>. A \<open>dict\<close>
  keeps insertion order, so it is an association list; \<open>map_of\<close> is the lookup and
  \<open>AList.update\<close> is \<open>d[k] = v\<close> (replace in place, or append a new key).
\<close>

datatype json =
    JNull
  | JBool bool
  | JInt int
  | JFloat int int
  | JStr ustring
  | JArr "json list"
  | JObj "(ustring \<times> json) list"

type_synonym dict = "(ustring \<times> json) list"

text \<open>The exceptions (instances of Python's \<open>Exception\<close>) the program can meet.\<close>

datatype exc =
    JSONDecodeError
  | AttributeError
  | TypeError
  | OSError
  | FileNotFoundError
  | OtherException ustring

text \<open>\<open>d.get(key, default)\<close>; a value that is not a \<open>dict\<close> has no \<open>get\<close>.\<close>

definition py_get :: "json \<Rightarrow> ustring \<Rightarrow> json \<Rightarrow> exc + json" where
  "py_get obj key dflt =
     (case obj of
        JObj d \<Rightarrow> Inr (case map_of d key of None \<Rightarrow> dflt | Some v \<Rightarrow> v)
      | _ \<Rightarrow> Inl AttributeError)"

text \<open>\<open>obj[key] = v\<close> for a string key: only a \<open>dict\<close> accepts it.\<close>

definition py_setitem :: "json \<Rightarrow> ustring \<Rightarrow> json \<Rightarrow> exc + json" where
  "py_setitem obj key v =
     (case obj of
        JObj d \<Rightarrow> Inr (JObj (AList.update key v d))
      | _ \<Rightarrow> Inl TypeError)"

subsection \<open>Whitespace, \<open>str.strip\<close> and \<open>str.split\<close>\<close>

text \<open>The code points for which \<open>str.isspace\<close> holds; \<open>strip()\<close> and \<open>split()\<close> use them.\<close>

definition is_space :: "nat \<Rightarrow> bool" where
  "is_space c \<longleftrightarrow>
     (0x09 \<le> c \<and> c \<le> 0x0D) \<or> (0x1C \<le> c \<and> c \<le> 0x20) \<or> c = 0x85 \<or> c = 0xA0 \<or>
     c = 0x1680 \<or> (0x2000 \<le> c \<and> c \<le> 0x200A) \<or> c = 0x2028 \<or> c = 0x2029 \<or>
     c = 0x202F \<or> c = 0x205F \<or> c = 0x3000"

definition py_strip :: "ustring \<Rightarrow> ustring" where
  "py_strip s = rev (dropWhile is_space (rev (dropWhile is_space s)))"

text \<open>
  \<open>s.split()\<close>: the maximal runs of characters that are not whitespace, in order.
  \<open>cur\<close> is the run being read.
\<close>

fun split_from :: "ustring \<Rightarrow> ustring \<Rightarrow> ustring list" where
  "split_from cur [] = (if cur = [] then [] else [cur])"
| "split_from cur (c # cs) =
     (if is_space c then (if cur = [] then split_from [] cs else cur # split_from [] cs)
      else split_from (cur @ [c]) cs)"

definition py_split :: "ustring \<Rightarrow> ustring list" where
  "py_split s = split_from [] s"

subsection \<open>\<open>os.path\<close> (POSIX)\<close>

definition os_path_join :: "ustring \<Rightarrow> ustring \<Rightarrow> ustring" where
  "os_path_join a b =
     (if b \<noteq> [] \<and> hd b = 0x2F then b
      else if a = [] \<or> last a = 0x2F then a @ b
      else a @ [0x2F] @ b)"

text \<open>\<open>os.path.basename\<close>: what follows the last \<open>/\<close>.\<close>

definition os_path_basename :: "ustring \<Rightarrow> ustring" where
  "os_path_basename p = rev (takeWhile (\<lambda>c. c \<noteq> 0x2F) (rev p))"

section \<open>The outside world\<close>

text \<open>
  The prompt sent to the text-generation backend is one of the five templates of
  \<open>llm_api_module\<close>, filled by \<open>str.format\<close>. A prompt is kept as the template's name and
  the values formatted into it, which determine the text.
\<close>

datatype prompt =
    QUERY_AUGMENTATION_PROMPT ustring
  | TYPING_AND_DEFINITION_PROMPT ustring ustring
  | ATTRIBUTE_EXTRACTION_PROMPT ustring json
  | RELATION_INFERENCE_PROMPT ustring "ustring list"
  | FINAL_VALIDATION_PROMPT ustring dict

text \<open>
  What the program does to the outside, in order: the calls to its collaborators and the
  messages it prints that report an entity's outcome.
\<close>

datatype event =
    Processing ustring
  | LLMRequest prompt
  | Crawl json
  | NoInformationFound ustring
  | ValidationFailed ustring
  | Makedirs ustring
  | Saving ustring json
  | SaveSuccessful
  | ErrorSaving exc
  | SuccessfullyProcessed ustring
  | CriticalError ustring exc
  | LoadingEntities ustring
  | NoEntitiesFound
  | Found nat nat
  | Finished

text \<open>
  The libraries and collaborators the program calls and does not define. \<open>'w\<close> is the state
  of the outside world (the network, the file system); a call may read and change it, and
  may raise.
  \<^item> \<open>pinyin_get s\<close> is \<open>pinyin.get(s, format="strip", delimiter=" ")\<close>;
  \<^item> \<open>str_capitalize\<close> is \<open>str.capitalize\<close> (Unicode case mapping);
  \<^item> \<open>py_str\<close> is \<open>str(v)\<close>, as an f-string formats a value that is not a \<open>str\<close>;
  \<^item> \<open>json_loads\<close> is \<open>json.loads\<close>;
  \<^item> \<open>get_llm_response\<close> is the text-generation backend;
  \<^item> \<open>crawl_web\<close> is \<open>crawler_module.crawl_web\<close>, the retrieval backend, returning text;
  \<^item> \<open>read_excel path\<close> is \<open>pd.read_excel(path, header=None)[0].dropna().astype(str).tolist()\<close>;
  \<^item> \<open>path_exists\<close>, \<open>makedirs\<close> are \<open>os.path.exists\<close>, \<open>os.makedirs\<close>;
  \<^item> \<open>write_json path v\<close> opens \<open>path\<close> for writing and \<open>json.dump\<close>s \<open>v\<close> into it.
\<close>

record 'w env =
  pinyin_get :: "ustring \<Rightarrow> ustring"
  str_capitalize :: "ustring \<Rightarrow> ustring"
  py_str :: "json \<Rightarrow> ustring"
  json_loads :: "ustring \<Rightarrow> exc + json"
  get_llm_response :: "prompt \<Rightarrow> 'w \<Rightarrow> (exc + ustring) \<times> 'w"
  crawl_web :: "json \<Rightarrow> 'w \<Rightarrow> (exc + ustring) \<times> 'w"
  read_excel :: "ustring \<Rightarrow> 'w \<Rightarrow> (exc + ustring list) \<times> 'w"
  path_exists :: "ustring \<Rightarrow> 'w \<Rightarrow> bool"
  makedirs :: "ustring \<Rightarrow> 'w \<Rightarrow> (exc + unit) \<times> 'w"
  write_json :: "ustring \<Rightarrow> json \<Rightarrow> 'w \<Rightarrow> (exc + unit) \<times> 'w"

text \<open>
  The state the program runs in: the outside world and the trace of what the program has
  done so far. A statement of the program is an action on this state and either returns a
  value or raises.
\<close>

record 'w state =
  world :: 'w
  trace :: "event list"

type_synonym ('w, 'a) action = "'w state \<Rightarrow> (exc + 'a) \<times> 'w state"

definition ret :: "'a \<Rightarrow> ('w, 'a) action" where
  "ret x s = (Inr x, s)"

text \<open>A pure computation that may raise.\<close>

definition eval_in :: "exc + 'a \<Rightarrow> ('w, 'a) action" where
  "eval_in r s = (r, s)"

text \<open>Sequencing: an exception of the first action skips the rest.\<close>

definition seq :: "('w, 'a) action \<Rightarrow> ('a \<Rightarrow> ('w, 'b) action) \<Rightarrow> ('w, 'b) action" where
  "seq m f s = (case m s of (Inl e, s') \<Rightarrow> (Inl e, s') | (Inr x, s') \<Rightarrow> f x s')"

text \<open>\<open>try: m except Exception as e: h e\<close>.\<close>

definition try_except :: "('w, 'a) action \<Rightarrow> (exc \<Rightarrow> ('w, 'a) action) \<Rightarrow> ('w, 'a) action" where
  "try_except m h s = (case m s of (Inl e, s') \<Rightarrow> h e s' | (Inr x, s') \<Rightarrow> (Inr x, s'))"

definition emit :: "event \<Rightarrow> ('w, unit) action" where
  "emit ev s = (Inr (), s\<lparr>trace := trace s @ [ev]\<rparr>)"

text \<open>A call to a collaborator: the event is recorded, then the call acts on the world.\<close>

definition outside :: "event \<Rightarrow> ('w \<Rightarrow> (exc + 'a) \<times> 'w) \<Rightarrow> ('w, 'a) action" where
  "outside ev call s =
     (case call (world s) of (r, w') \<Rightarrow> (r, s\<lparr>world := w', trace := trace s @ [ev]\<rparr>))"

section \<open>utils: the canonical identifier and the record assembler\<close>

definition is_alnum :: "nat \<Rightarrow> bool" where
  "is_alnum c \<longleftrightarrow> (0x61 \<le> c \<and> c \<le> 0x7A) \<or> (0x41 \<le> c \<and> c \<le> 0x5A) \<or> (0x30 \<le> c \<and> c \<le> 0x39)"

definition middle_dot :: nat where "middle_dot = 0xB7"

definition hyphen :: nat where "hyphen = 0x2D"

text \<open>
  \<open>standardize_entity_id\<close>: the first \<open>re.sub\<close> deletes every middle dot (U+00B7) and
  hyphen, \<open>pinyin.get\<close> transliterates the rest, each word of the result is capitalised
  and the words are joined, and the last \<open>re.sub\<close> deletes every character outside
  \<open>[a-zA-Z0-9]\<close>.
\<close>

definition standardize_entity_id :: "'w env \<Rightarrow> ustring \<Rightarrow> ustring" where
  "standardize_entity_id env entity_name =
     (let entity_name' = filter (\<lambda>c. c \<noteq> middle_dot \<and> c \<noteq> hyphen) entity_name;
          pinyin_str = pinyin_get env entity_name';
          camel_case_id = concat (map (str_capitalize env) (py_split pinyin_str))
      in filter is_alnum camel_case_id)"

definition k_entity_id :: ustring where "k_entity_id = ascii ''entity_id''"
definition k_label :: ustring where "k_label = ascii ''label''"
definition k_aliases :: ustring where "k_aliases = ascii ''aliases''"
definition k_source_file :: ustring where "k_source_file = ascii ''source_file''"
definition k_description :: ustring where "k_description = ascii ''description''"
definition k_background_context :: ustring where
  "k_background_context = ascii ''background_context''"
definition k_entity_type :: ustring where "k_entity_type = ascii ''entity_type''"
definition k_attributes :: ustring where "k_attributes = ascii ''attributes''"
definition k_relations :: ustring where "k_relations = ascii ''relations''"
definition k_primary_type :: ustring where "k_primary_type = ascii ''primary_type''"
definition k_sub_type :: ustring where "k_sub_type = ascii ''sub_type''"
definition k_target_entity_id :: ustring where "k_target_entity_id = ascii ''target_entity_id''"
definition k_target_label :: ustring where "k_target_label = ascii ''target_label''"
definition k_relationship_type :: ustring where
  "k_relationship_type = ascii ''relationship_type''"

text \<open>\<open>info.get(key, default)\<close> on the \<open>dict\<close> \<open>info\<close>.\<close>

definition dict_get :: "dict \<Rightarrow> ustring \<Rightarrow> json \<Rightarrow> json" where
  "dict_get d key dflt = (case map_of d key of None \<Rightarrow> dflt | Some v \<Rightarrow> v)"

definition assemble_json :: "'w env \<Rightarrow> ustring \<Rightarrow> ustring \<Rightarrow> dict \<Rightarrow> json \<Rightarrow> dict" where
  "assemble_json env entity_name source_file info relations =
     (let aliases = (case map_of info k_aliases of None \<Rightarrow> JArr [] | Some a \<Rightarrow> a)
      in [(k_entity_id, JStr (standardize_entity_id env entity_name)),
          (k_label, JStr entity_name),
          (k_aliases, aliases),
          (k_source_file, JStr source_file),
          (k_description, dict_get info k_description (JStr [])),
          (k_background_context, dict_get info k_background_context (JStr [])),
          (k_entity_type, dict_get info k_entity_type (JObj [])),
          (k_attributes, dict_get info k_attributes (JObj [])),
          (k_relations, relations)])"

section \<open>validator\_module: the schema and its validator\<close>

datatype schema_type = String | Array | Object

text \<open>
  \<open>MASTER_SCHEMA\<close>. A property is its key, its \<open>"type"\<close> and, where the schema gives one,
  the \<open>"required"\<close> list nested under it or under its \<open>"items"\<close>.
\<close>

definition MASTER_SCHEMA_properties :: "(ustring \<times> schema_type \<times> ustring list) list" where
  "MASTER_SCHEMA_properties =
     [(k_entity_id, String, []),
      (k_label, String, []),
      (k_aliases, Array, []),
      (k_source_file, String, []),
      (k_description, String, []),
      (k_background_context, String, []),
      (k_entity_type, Object, [k_primary_type, k_sub_type]),
      (k_attributes, Object, []),
      (k_relations, Array, [k_target_entity_id, k_target_label, k_relationship_type])]"

definition MASTER_SCHEMA_required :: "ustring list" where
  "MASTER_SCHEMA_required =
     [k_entity_id, k_label, k_aliases, k_source_file, k_description,
      k_background_context, k_entity_type, k_attributes, k_relations]"

text \<open>\<open>isinstance(v, str)\<close>, \<open>isinstance(v, list)\<close>, \<open>isinstance(v, dict)\<close>.\<close>

fun isinstance :: "json \<Rightarrow> schema_type \<Rightarrow> bool" where
  "isinstance (JStr _) String = True"
| "isinstance (JArr _) Array = True"
| "isinstance (JObj _) Object = True"
| "isinstance _ _ = False"

text \<open>The first loop of \<open>validate_schema\<close>: \<open>False\<close> at the first required key that is missing.\<close>

fun required_loop :: "ustring list \<Rightarrow> dict \<Rightarrow> bool" where
  "required_loop [] json_obj = True"
| "required_loop (key # keys) json_obj =
     (if map_of json_obj key = None then False else required_loop keys json_obj)"

text \<open>
  The second loop: for a key that is present, \<open>False\<close> when its value has not the
  property's \<open>"type"\<close>. The nested \<open>"required"\<close> lists are not read.
\<close>

fun properties_loop :: "(ustring \<times> schema_type \<times> ustring list) list \<Rightarrow> dict \<Rightarrow> bool" where
  "properties_loop [] json_obj = True"
| "properties_loop ((key, ty, nested) # props) json_obj =
     (case map_of json_obj key of
        None \<Rightarrow> properties_loop props json_obj
      | Some v \<Rightarrow>
          if ty = String \<and> \<not> isinstance v String then False
          else if ty = Array \<and> \<not> isinstance v Array then False
          else if ty = Object \<and> \<not> isinstance v Object then False
          else properties_loop props json_obj)"

definition validate_schema :: "dict \<Rightarrow> bool" where
  "validate_schema json_obj =
     (if \<not> required_loop MASTER_SCHEMA_required json_obj then False
      else if \<not> properties_loop MASTER_SCHEMA_properties json_obj then False
      else True)"

section \<open>utils: the storage writer and the roster loader\<close>

definition k_unknown_entity :: ustring where "k_unknown_entity = ascii ''unknown_entity''"

text \<open>The f-string \<open>f"{entity_id}.json"\<close>: a \<open>str\<close> is taken as it is, another value by \<open>str\<close>.\<close>

definition json_filename :: "'w env \<Rightarrow> json \<Rightarrow> ustring" where
  "json_filename env entity_id =
     (case entity_id of JStr s \<Rightarrow> s | v \<Rightarrow> py_str env v) @ ascii ''.json''"

definition save_json_to_file :: "'w env \<Rightarrow> json \<Rightarrow> ustring \<Rightarrow> ('w, unit) action" where
  "save_json_to_file env json_data output_dir =
     seq (\<lambda>s. if \<not> path_exists env output_dir (world s)
               then outside (Makedirs output_dir) (makedirs env output_dir) s
               else ret () s) (\<lambda>_.
     seq (eval_in (py_get json_data k_entity_id (JStr k_unknown_entity))) (\<lambda>entity_id.
     let filepath = os_path_join output_dir (json_filename env entity_id) in
     try_except
       (seq (outside (Saving filepath json_data) (write_json env filepath json_data)) (\<lambda>_.
        emit SaveSuccessful))
       (\<lambda>e. emit (ErrorSaving e))))"

text \<open>Both \<open>except\<close> clauses of the loader return the empty list.\<close>

definition load_all_entities_from_excel :: "'w env \<Rightarrow> ustring \<Rightarrow> ('w, ustring list) action" where
  "load_all_entities_from_excel env filepath =
     try_except (outside (LoadingEntities filepath) (read_excel env filepath))
       (\<lambda>e. if e = FileNotFoundError then ret [] else ret [])"

section \<open>main: the per-entity pipeline and the driver\<close>

definition INPUT_EXCEL_FILE :: ustring where
  "INPUT_EXCEL_FILE =
     ascii ''../'' @ [0x5927, 0x6E21, 0x6CB3, 0x77E5, 0x8BC6, 0x5B9E, 0x4F53] @ ascii ''.xlsx''"

definition SOURCE_FILENAME :: ustring where
  "SOURCE_FILENAME = os_path_basename INPUT_EXCEL_FILE"

definition OUTPUT_DIR :: ustring where
  "OUTPUT_DIR = ascii ''output''"

definition k_Unknown :: ustring where "k_Unknown = ascii ''Unknown''"

definition llm :: "'w env \<Rightarrow> prompt \<Rightarrow> ('w, ustring) action" where
  "llm env p = outside (LLMRequest p) (get_llm_response env p)"

text \<open>
  \<open>process_entity\<close>, statement by statement. \<open>json.loads\<close>, \<open>.get\<close> on a value that is not
  a \<open>dict\<close> and every collaborator may raise; nothing here catches.
\<close>

definition process_entity :: "'w env \<Rightarrow> ustring \<Rightarrow> ustring list \<Rightarrow> ('w, unit) action" where
  "process_entity env entity_name all_entities_list =
     seq (emit (Processing entity_name)) (\<lambda>_.
     seq (llm env (QUERY_AUGMENTATION_PROMPT entity_name)) (\<lambda>augmented_queries_str.
     seq (eval_in (json_loads env augmented_queries_str)) (\<lambda>augmented_queries.
     seq (outside (Crawl augmented_queries) (crawl_web env augmented_queries)) (\<lambda>raw_text.
     if raw_text = [] \<or> py_strip raw_text = [] then
       emit (NoInformationFound entity_name)
     else
     seq (llm env (TYPING_AND_DEFINITION_PROMPT entity_name raw_text)) (\<lambda>structured_info_str.
     seq (eval_in (json_loads env structured_info_str)) (\<lambda>structured_info.
     seq (eval_in (py_get structured_info k_entity_type (JObj []))) (\<lambda>entity_type_obj.
     seq (eval_in (py_get entity_type_obj k_sub_type (JStr k_Unknown))) (\<lambda>entity_type_name.
     seq (llm env (ATTRIBUTE_EXTRACTION_PROMPT entity_name entity_type_name)) (\<lambda>attributes_str.
     seq (eval_in (json_loads env attributes_str)) (\<lambda>attributes.
     seq (eval_in (py_setitem structured_info k_attributes attributes)) (\<lambda>structured_info.
     seq (llm env (RELATION_INFERENCE_PROMPT entity_name all_entities_list)) (\<lambda>relations_str.
     seq (eval_in (json_loads env relations_str)) (\<lambda>relations.
     seq (eval_in (case structured_info of JObj info \<Rightarrow> Inr info | _ \<Rightarrow> Inl AttributeError)) (\<lambda>info.
     let final_json_obj = assemble_json env entity_name SOURCE_FILENAME info relations in
     if \<not> validate_schema final_json_obj then
       emit (ValidationFailed entity_name)
     else
     seq (llm env (FINAL_VALIDATION_PROMPT entity_name final_json_obj)) (\<lambda>validated_json_str.
     seq (eval_in (json_loads env validated_json_str)) (\<lambda>validated_json.
     seq (save_json_to_file env validated_json OUTPUT_DIR) (\<lambda>_.
     emit (SuccessfullyProcessed entity_name))))))))))))))))))"

text \<open>The \<open>for\<close> loop of \<open>main\<close>, with its \<open>try\<close> around each entity.\<close>

fun for_entity_name :: "'w env \<Rightarrow> ustring list \<Rightarrow> ustring list \<Rightarrow> ('w, unit) action" where
  "for_entity_name env all_entities_list [] = ret ()"
| "for_entity_name env all_entities_list (entity_name # rest) =
     seq (try_except (process_entity env entity_name all_entities_list)
            (\<lambda>e. emit (CriticalError entity_name e))) (\<lambda>_.
     for_entity_name env all_entities_list rest)"

definition main :: "'w env \<Rightarrow> ('w, unit) action" where
  "main env =
     seq (load_all_entities_from_excel env INPUT_EXCEL_FILE) (\<lambda>all_entities_list.
     if all_entities_list = [] then
       emit NoEntitiesFound
     else
     let entities_to_process = take 2 all_entities_list in
     seq (emit (Found (length all_entities_list) (length entities_to_process))) (\<lambda>_.
     seq (for_entity_name env all_entities_list entities_to_process) (\<lambda>_.
     emit Finished)))"

text \<open>The entities whose pipeline run was started, in order, read off a trace.\<close>

fun entities_processed :: "event list \<Rightarrow> ustring list" where
  "entities_processed [] = []"
| "entities_processed (Processing entity_name # evs) = entity_name # entities_processed evs"
| "entities_processed (_ # evs) = entities_processed evs"

text \<open>
  What the loop of \<open>main\<close> does with one entity: the state after the run of its pipeline,
  with the error message appended when the run raised.
\<close>

definition after_entity :: "'w env \<Rightarrow> ustring list \<Rightarrow> 'w state \<Rightarrow> ustring \<Rightarrow> 'w state" where
  "after_entity env all_entities_list s entity_name =
     (case process_entity env entity_name all_entities_list s of
        (Inr _, s') \<Rightarrow> s'
      | (Inl e, s') \<Rightarrow> s'\<lparr>trace := trace s' @ [CriticalError entity_name e]\<rparr>)"

section \<open>A small instance of the outside world\<close>

text \<open>
  Collaborators for running the program on examples: an excerpt of the pinyin table,
  \<open>str.capitalize\<close> on ASCII letters, a file system that is a table from paths to the
  values dumped into them, and the canned responses of the placeholder text-generation
  backend of \<open>llm_api_module\<close>, each response named by a short text that the example's
  \<open>json.loads\<close> decodes.
\<close>

definition zhong_li_ba :: ustring where "zhong_li_ba = [0x91CD, 0x529B, 0x575D]"

definition shui_ku_diao_du :: ustring where "shui_ku_diao_du = [0x6C34, 0x5E93, 0x8C03, 0x5EA6]"

definition demo_pinyin_char :: "nat \<Rightarrow> ustring" where
  "demo_pinyin_char c =
     (if c = 0x91CD then ascii ''zhong'' else if c = 0x529B then ascii ''li''
      else if c = 0x575D then ascii ''ba'' else if c = 0x6C34 then ascii ''shui''
      else if c = 0x5E93 then ascii ''ku'' else if c = 0x8C03 then ascii ''diao''
      else if c = 0x5EA6 then ascii ''du'' else [c])"

fun join_with_space :: "ustring list \<Rightarrow> ustring" where
  "join_with_space [] = []"
| "join_with_space [w] = w"
| "join_with_space (w # ws) = w @ [0x20] @ join_with_space ws"

definition demo_pinyin :: "ustring \<Rightarrow> ustring" where
  "demo_pinyin s = join_with_space (map demo_pinyin_char s)"

definition ascii_upper :: "nat \<Rightarrow> nat" where
  "ascii_upper c = (if 0x61 \<le> c \<and> c \<le> 0x7A then c - 0x20 else c)"

definition ascii_lower :: "nat \<Rightarrow> nat" where
  "ascii_lower c = (if 0x41 \<le> c \<and> c \<le> 0x5A then c + 0x20 else c)"

definition ascii_capitalize :: "ustring \<Rightarrow> ustring" where
  "ascii_capitalize w = (case w of [] \<Rightarrow> [] | c # cs \<Rightarrow> ascii_upper c # map ascii_lower cs)"

type_synonym files = "(ustring \<times> json) list"

definition demo_respond :: "prompt \<Rightarrow> ustring" where
  "demo_respond p =
     (case p of
        QUERY_AUGMENTATION_PROMPT _ \<Rightarrow> ascii ''queries''
      | TYPING_AND_DEFINITION_PROMPT _ _ \<Rightarrow> ascii ''typing''
      | ATTRIBUTE_EXTRACTION_PROMPT _ _ \<Rightarrow> ascii ''attributes''
      | RELATION_INFERENCE_PROMPT _ _ \<Rightarrow> ascii ''relations''
      | FINAL_VALIDATION_PROMPT _ _ \<Rightarrow> ascii ''record'')"

definition demo_relations :: json where
  "demo_relations =
     JArr [JObj [(k_target_entity_id, JStr (ascii ''OptimizationAlgorithm'')),
                 (k_target_label, JStr (ascii ''optimization algorithm'')),
                 (k_relationship_type, JStr (ascii ''uses_method''))]]"

definition demo_loads :: "json \<Rightarrow> ustring \<Rightarrow> exc + json" where
  "demo_loads record t =
     (if t = ascii ''queries'' then Inr (JArr [JStr (ascii ''reservoir operation rules extraction'')])
      else if t = ascii ''typing'' then
        Inr (JObj [(k_entity_type, JObj [(k_primary_type, JStr (ascii ''DomainConcept'')),
                                         (k_sub_type, JStr (ascii ''EngineeringProcess''))]),
                   (k_description, JStr (ascii ''a description'')),
                   (k_background_context, JStr (ascii ''a background''))])
      else if t = ascii ''attributes'' then
        Inr (JObj [(ascii ''objectives'', JArr [JStr (ascii ''flood control'')])])
      else if t = ascii ''relations'' then Inr demo_relations
      else if t = ascii ''record'' then Inr record
      else Inl JSONDecodeError)"

text \<open>
  \<open>demo_env roster raw_text respond loads write\<close>: the roster the loader reads, the text the
  retrieval returns, the text-generation backend, \<open>json.loads\<close> and the file writer. The
  output directory exists.
\<close>

definition demo_env ::
  "ustring list \<Rightarrow> ustring \<Rightarrow> (prompt \<Rightarrow> exc + ustring) \<Rightarrow> (ustring \<Rightarrow> exc + json) \<Rightarrow>
   (ustring \<Rightarrow> json \<Rightarrow> files \<Rightarrow> (exc + unit) \<times> files) \<Rightarrow> files env" where
  "demo_env roster raw_text respond loads write =
     \<lparr>pinyin_get = demo_pinyin,
      str_capitalize = ascii_capitalize,
      py_str = (\<lambda>v. ascii ''None''),
      json_loads = loads,
      get_llm_response = (\<lambda>p w. (respond p, w)),
      crawl_web = (\<lambda>queries w. (Inr raw_text, w)),
      read_excel = (\<lambda>path w. (Inr roster, w)),
      path_exists = (\<lambda>path w. True),
      makedirs = (\<lambda>path w. (Inr (), w)),
      write_json = write\<rparr>"

definition disk_write :: "ustring \<Rightarrow> json \<Rightarrow> files \<Rightarrow> (exc + unit) \<times> files" where
  "disk_write path v w = (Inr (), AList.update path v w)"

definition disk_full :: "ustring \<Rightarrow> json \<Rightarrow> files \<Rightarrow> (exc + unit) \<times> files" where
  "disk_full path v w = (Inl OSError, w)"

definition start :: "files state" where
  "start = \<lparr>world = [], trace = []\<rparr>"

text \<open>A record whose top level is complete, with nothing in \<open>entity_type\<close> and in its relation.\<close>

definition shallow_record :: dict where
  "shallow_record =
     [(k_entity_id, JStr (ascii ''ZhongLiBa'')),
      (k_label, JStr zhong_li_ba),
      (k_aliases, JArr []),
      (k_source_file, JStr SOURCE_FILENAME),
      (k_description, JStr []),
      (k_background_context, JStr []),
      (k_entity_type, JObj []),
      (k_attributes, JObj []),
      (k_relations, JArr [JObj []])]"

text \<open>
  Three worlds built from it: one whose retrieval returns only whitespace for a roster of
  three, one whose text-generation backend fails on the first entity, and one whose disk
  rejects every write.
\<close>

definition blank_text :: ustring where
  "blank_text = [0x20, 0x0A, 0x3000]"

definition three_entities :: "ustring list" where
  "three_entities = [zhong_li_ba, shui_ku_diao_du, ascii ''flood'']"

definition blank_env :: "files env" where
  "blank_env = demo_env three_entities blank_text (\<lambda>p. Inr (demo_respond p)) (demo_loads JNull) disk_write"

definition timeout_env :: "files env" where
  "timeout_env =
     demo_env [zhong_li_ba, shui_ku_diao_du] blank_text
       (\<lambda>p. if p = QUERY_AUGMENTATION_PROMPT zhong_li_ba then Inl (OtherException (ascii ''timeout''))
            else Inr (demo_respond p))
       (demo_loads JNull) disk_write"

definition full_disk_env :: "files env" where
  "full_disk_env =
     demo_env [shui_ku_diao_du] (ascii ''text'') (\<lambda>p. Inr (demo_respond p))
       (demo_loads (JObj shallow_record)) disk_full"

definition demo_queries :: json where
  "demo_queries = JArr [JStr (ascii ''reservoir operation rules extraction'')]"

text \<open>
  A world in which every stage succeeds, for a roster of three, and the \<open>info\<close> mapping
  its typing and attribute stages produce.
\<close>

definition working_env :: "files env" where
  "working_env =
     demo_env three_entities (ascii ''text'') (\<lambda>p. Inr (demo_respond p))
       (demo_loads (JObj shallow_record)) disk_write"

definition demo_info :: dict where
  "demo_info =
     [(k_entity_type, JObj [(k_primary_type, JStr (ascii ''DomainConcept'')),
                            (k_sub_type, JStr (ascii ''EngineeringProcess''))]),
      (k_description, JStr (ascii ''a description'')),
      (k_background_context, JStr (ascii ''a background'')),
      (k_attributes, JObj [(ascii ''objectives'', JArr [JStr (ascii ''flood control'')])])]"

section \<open>Strings and keys\<close>

lemma ascii_eq_iff: "ascii s = ascii t \<longleftrightarrow> s = t"
  unfolding ascii_def by (simp add: inj_map_eq_map inj_of_char)

lemmas key_defs = k_entity_id_def k_label_def k_aliases_def k_source_file_def
  k_description_def k_background_context_def k_entity_type_def k_attributes_def k_relations_def

lemma py_strip_empty_iff: "py_strip s = [] \<longleftrightarrow> (\<forall>c \<in> set s. is_space c)"
proof -
  have "py_strip s = [] \<longleftrightarrow> (\<forall>c \<in> set (dropWhile is_space s). is_space c)"
    unfolding py_strip_def by (simp add: dropWhile_eq_Nil_conv)
  also have "\<dots> \<longleftrightarrow> dropWhile is_space s = []"
  proof
    assume a: "\<forall>c \<in> set (dropWhile is_space s). is_space c"
    show "dropWhile is_space s = []"
    proof (rule ccontr)
      assume n: "dropWhile is_space s \<noteq> []"
      then have "\<not> is_space (hd (dropWhile is_space s))" by (rule hd_dropWhile)
      moreover have "hd (dropWhile is_space s) \<in> set (dropWhile is_space s)"
        using n by simp
      ultimately show False using a by blast
    qed
  next
    assume "dropWhile is_space s = []"
    then show "\<forall>c \<in> set (dropWhile is_space s). is_space c"
      by (auto dest: set_dropWhileD)
  qed
  also have "\<dots> \<longleftrightarrow> (\<forall>c \<in> set s. is_space c)"
    by (simp add: dropWhile_eq_Nil_conv)
  finally show ?thesis .
qed

section \<open>The validator\<close>

lemma required_loop_iff:
  "required_loop keys d \<longleftrightarrow> (\<forall>k \<in> set keys. map_of d k \<noteq> None)"
  by (induction keys) auto

lemma isinstance_String: "isinstance v String \<longleftrightarrow> (\<exists>s. v = JStr s)"
  by (cases v) auto

lemma isinstance_Array: "isinstance v Array \<longleftrightarrow> (\<exists>xs. v = JArr xs)"
  by (cases v) auto

lemma isinstance_Object: "isinstance v Object \<longleftrightarrow> (\<exists>d. v = JObj d)"
  by (cases v) auto

lemma properties_loop_iff:
  "properties_loop props d \<longleftrightarrow>
     (\<forall>(k, ty, nested) \<in> set props. \<forall>v. map_of d k = Some v \<longrightarrow> isinstance v ty)"
proof (induction props)
  case Nil
  show ?case by simp
next
  case (Cons p props)
  obtain k ty nested where p: "p = (k, ty, nested)" by (cases p)
  show ?case unfolding p using Cons.IH
    by (cases ty) (auto split: option.splits)
qed

lemma validate_schema_shape:
  "validate_schema r \<longleftrightarrow>
     (\<exists>a b c d e f g h i.
        map_of r k_entity_id = Some (JStr a) \<and>
        map_of r k_label = Some (JStr b) \<and>
        map_of r k_aliases = Some (JArr c) \<and>
        map_of r k_source_file = Some (JStr d) \<and>
        map_of r k_description = Some (JStr e) \<and>
        map_of r k_background_context = Some (JStr f) \<and>
        map_of r k_entity_type = Some (JObj g) \<and>
        map_of r k_attributes = Some (JObj h) \<and>
        map_of r k_relations = Some (JArr i))"
  unfolding validate_schema_def required_loop_iff properties_loop_iff
    MASTER_SCHEMA_required_def MASTER_SCHEMA_properties_def
  by (auto simp: isinstance_String isinstance_Array isinstance_Object)

text \<open>
  A record that has every top-level key with a value of the right kind, an \<open>entity_type\<close>
  without \<open>sub_type\<close> and \<open>primary_type\<close>, and a relation without its three fields: the
  validator accepts it.
\<close>

theorem validate_schema_accepts_missing_sub_type:
  "map_of shallow_record k_entity_type = Some (JObj []) \<and>
   map_of ([] :: dict) k_sub_type = None \<and>
   map_of ([] :: dict) k_primary_type = None \<and>
   map_of shallow_record k_relations = Some (JArr [JObj []]) \<and>
   map_of ([] :: dict) k_target_entity_id = None \<and>
   validate_schema shallow_record = True"
  by (simp add: validate_schema_def shallow_record_def MASTER_SCHEMA_required_def
      MASTER_SCHEMA_properties_def key_defs ascii_eq_iff)

text \<open>
  Claim C1, as the code has it. \<open>validate_schema\<close> returns \<open>True\<close> exactly for the records in
  which each of the nine required top-level keys is present with a value of the kind the
  schema declares for it (\<open>str\<close>, \<open>list\<close> or \<open>dict\<close>). What is inside \<open>entity_type\<close> and
  inside the entries of \<open>relations\<close> has no part in the result: the nested required fields
  are not checked.
\<close>

theorem validate_schema_top_level_only:
  "validate_schema r \<longleftrightarrow>
     (\<exists>a b c d e f g h i.
        map_of r k_entity_id = Some (JStr a) \<and>
        map_of r k_label = Some (JStr b) \<and>
        map_of r k_aliases = Some (JArr c) \<and>
        map_of r k_source_file = Some (JStr d) \<and>
        map_of r k_description = Some (JStr e) \<and>
        map_of r k_background_context = Some (JStr f) \<and>
        map_of r k_entity_type = Some (JObj g) \<and>
        map_of r k_attributes = Some (JObj h) \<and>
        map_of r k_relations = Some (JArr i))"
  by (rule validate_schema_shape)

theorem validate_schema_top_level_only_witness:
  "validate_schema
     [(k_relations, JArr [JObj [(k_target_label, JStr zhong_li_ba)]]),
      (k_attributes, JObj []),
      (k_entity_type, JObj [(k_primary_type, JStr (ascii ''DomainConcept''))]),
      (k_background_context, JStr []),
      (k_description, JStr []),
      (k_source_file, JStr SOURCE_FILENAME),
      (k_aliases, JArr []),
      (k_label, JStr zhong_li_ba),
      (k_entity_id, JStr (ascii ''ZhongLiBa''))]"
  using validate_schema_top_level_only
    [of "[(k_relations, JArr [JObj [(k_target_label, JStr zhong_li_ba)]]),
      (k_attributes, JObj []),
      (k_entity_type, JObj [(k_primary_type, JStr (ascii ''DomainConcept''))]),
      (k_background_context, JStr []),
      (k_description, JStr []),
      (k_source_file, JStr SOURCE_FILENAME),
      (k_aliases, JArr []),
      (k_label, JStr zhong_li_ba),
      (k_entity_id, JStr (ascii ''ZhongLiBa''))]"]
  by (simp add: key_defs ascii_eq_iff)

text \<open>
  Claim C10. The validator ignores unknown fields: when a record passes, the record with one
  more top-level key that the schema does not name, set to any value, passes too.
\<close>

theorem validate_schema_ignores_unknown_key:
  assumes "validate_schema r" and "key \<notin> fst ` set MASTER_SCHEMA_properties"
  shows "validate_schema (AList.update key v r)"
proof -
  have "key \<noteq> k_entity_id" "key \<noteq> k_label" "key \<noteq> k_aliases" "key \<noteq> k_source_file"
    "key \<noteq> k_description" "key \<noteq> k_background_context" "key \<noteq> k_entity_type"
    "key \<noteq> k_attributes" "key \<noteq> k_relations"
    using assms(2) by (auto simp: MASTER_SCHEMA_properties_def)
  then have "\<And>k. k \<in> set MASTER_SCHEMA_required \<Longrightarrow> map_of (AList.update key v r) k = map_of r k"
    by (auto simp: MASTER_SCHEMA_required_def update_conv')
  then show ?thesis
    using assms(1) unfolding validate_schema_shape
    by (simp add: MASTER_SCHEMA_required_def)
qed

theorem validate_schema_ignores_unknown_key_witness:
  "validate_schema shallow_record \<and>
   ascii ''confidence'' \<notin> fst ` set MASTER_SCHEMA_properties \<and>
   AList.update (ascii ''confidence'') (JInt 1) shallow_record = shallow_record @ [(ascii ''confidence'', JInt 1)] \<and>
   validate_schema (shallow_record @ [(ascii ''confidence'', JInt 1)])"
proof -
  have v: "validate_schema shallow_record"
    by (simp add: validate_schema_def shallow_record_def MASTER_SCHEMA_required_def
      MASTER_SCHEMA_properties_def key_defs ascii_eq_iff)
  have k: "ascii ''confidence'' \<notin> fst ` set MASTER_SCHEMA_properties"
    by (simp add: MASTER_SCHEMA_properties_def key_defs ascii_eq_iff)
  have u: "AList.update (ascii ''confidence'') (JInt 1) shallow_record = shallow_record @ [(ascii ''confidence'', JInt 1)]"
    by (simp add: shallow_record_def key_defs ascii_eq_iff)
  show ?thesis
    using validate_schema_ignores_unknown_key [OF v k, of "JInt 1"] v k u by simp
qed

section \<open>The canonical identifier and the assembler\<close>

text \<open>
  Claim C6. Whatever the label and whatever the transliteration and capitalisation return,
  the identifier consists of characters of \<open>[A-Za-z0-9]\<close> only; in particular it contains no
  middle dot and no hyphen.
\<close>

theorem standardize_entity_id_alphanumeric:
  "(\<forall>c \<in> set (standardize_entity_id env label). is_alnum c) \<and>
   middle_dot \<notin> set (standardize_entity_id env label) \<and>
   hyphen \<notin> set (standardize_entity_id env label)"
  unfolding standardize_entity_id_def
  by (auto simp: Let_def is_alnum_def middle_dot_def hyphen_def)

theorem standardize_entity_id_alphanumeric_witness:
  "standardize_entity_id (demo_env [] [] (\<lambda>p. Inr (demo_respond p)) (demo_loads JNull) disk_write)
     [0x91CD, middle_dot, 0x529B, hyphen, 0x575D] = ascii ''ZhongLiBa'' \<and>
   list_all is_alnum (ascii ''ZhongLiBa'') \<and>
   middle_dot \<notin> set (ascii ''ZhongLiBa'') \<and> hyphen \<notin> set (ascii ''ZhongLiBa'')"
proof -
  have e: "standardize_entity_id (demo_env [] [] (\<lambda>p. Inr (demo_respond p)) (demo_loads JNull) disk_write)
     [0x91CD, middle_dot, 0x529B, hyphen, 0x575D] = ascii ''ZhongLiBa''"
    by (simp add: standardize_entity_id_def demo_env_def demo_pinyin_def demo_pinyin_char_def
      middle_dot_def hyphen_def py_split_def is_space_def is_alnum_def ascii_capitalize_def
      ascii_upper_def ascii_lower_def ascii_def)
  show ?thesis
    using standardize_entity_id_alphanumeric
      [of "demo_env [] [] (\<lambda>p. Inr (demo_respond p)) (demo_loads JNull) disk_write"
          "[0x91CD, middle_dot, 0x529B, hyphen, 0x575D]"]
    unfolding e by (simp add: list_all_iff)
qed

text \<open>
  Claim C5. The \<open>entity_id\<close> of an assembled record is the canonical identifier of the label:
  two records assembled for one label, from any two \<open>info\<close> mappings and relation lists,
  have the same \<open>entity_id\<close>.
\<close>

theorem assemble_json_entity_id:
  "map_of (assemble_json env label source_file info1 relations1) k_entity_id =
     Some (JStr (standardize_entity_id env label)) \<and>
   map_of (assemble_json env label source_file info2 relations2) k_entity_id =
     map_of (assemble_json env label source_file info1 relations1) k_entity_id"
  by (simp add: assemble_json_def)

text \<open>
  Claim C4. \<open>assemble_json\<close> has no failing path: for every \<open>info\<close> mapping and every
  \<open>relations\<close> it returns a record whose keys are the nine required top-level keys, and a
  key that \<open>info\<close> lacks gets its default: \<open>aliases\<close> the empty list, \<open>description\<close> and
  \<open>background_context\<close> the empty string, \<open>entity_type\<close> and \<open>attributes\<close> the empty
  mapping.
\<close>

theorem assemble_json_total:
  "map fst (assemble_json env entity_name source_file info relations) = MASTER_SCHEMA_required \<and>
   set MASTER_SCHEMA_required \<subseteq> dom (map_of (assemble_json env entity_name source_file info relations)) \<and>
   (map_of info k_aliases = None \<longrightarrow>
      map_of (assemble_json env entity_name source_file info relations) k_aliases = Some (JArr [])) \<and>
   (map_of info k_description = None \<longrightarrow>
      map_of (assemble_json env entity_name source_file info relations) k_description = Some (JStr [])) \<and>
   (map_of info k_background_context = None \<longrightarrow>
      map_of (assemble_json env entity_name source_file info relations) k_background_context = Some (JStr [])) \<and>
   (map_of info k_entity_type = None \<longrightarrow>
      map_of (assemble_json env entity_name source_file info relations) k_entity_type = Some (JObj [])) \<and>
   (map_of info k_attributes = None \<longrightarrow>
      map_of (assemble_json env entity_name source_file info relations) k_attributes = Some (JObj []))"
  by (simp add: assemble_json_def MASTER_SCHEMA_required_def dict_get_def key_defs ascii_eq_iff)


theorem assemble_json_total_witness:
  "map_of ([] :: dict) k_aliases = None \<and>
   map fst (assemble_json (demo_env [] [] (\<lambda>p. Inr (demo_respond p)) (demo_loads JNull) disk_write)
              zhong_li_ba SOURCE_FILENAME [] demo_relations) = MASTER_SCHEMA_required \<and>
   map_of (assemble_json (demo_env [] [] (\<lambda>p. Inr (demo_respond p)) (demo_loads JNull) disk_write)
              zhong_li_ba SOURCE_FILENAME [] demo_relations) k_aliases = Some (JArr []) \<and>
   map_of (assemble_json (demo_env [] [] (\<lambda>p. Inr (demo_respond p)) (demo_loads JNull) disk_write)
              zhong_li_ba SOURCE_FILENAME [] demo_relations) k_description = Some (JStr []) \<and>
   map_of (assemble_json (demo_env [] [] (\<lambda>p. Inr (demo_respond p)) (demo_loads JNull) disk_write)
              zhong_li_ba SOURCE_FILENAME [] demo_relations) k_background_context = Some (JStr []) \<and>
   map_of (assemble_json (demo_env [] [] (\<lambda>p. Inr (demo_respond p)) (demo_loads JNull) disk_write)
              zhong_li_ba SOURCE_FILENAME [] demo_relations) k_entity_type = Some (JObj []) \<and>
   map_of (assemble_json (demo_env [] [] (\<lambda>p. Inr (demo_respond p)) (demo_loads JNull) disk_write)
              zhong_li_ba SOURCE_FILENAME [] demo_relations) k_attributes = Some (JObj [])"
  using assemble_json_total
    [of "demo_env [] [] (\<lambda>p. Inr (demo_respond p)) (demo_loads JNull) disk_write"
        zhong_li_ba SOURCE_FILENAME "[]" demo_relations]
  by simp

section \<open>Actions\<close>

lemma seqE:
  assumes "seq m f s = (r, s')"
  obtains (raised) e where "m s = (Inl e, s')" and "r = Inl e"
        | (returned) x s1 where "m s = (Inr x, s1)" and "f x s1 = (r, s')"
  using assms by (auto simp: seq_def split: prod.splits sum.splits)

lemma try_exceptE:
  assumes "try_except m h s = (r, s')"
  obtains (caught) e s1 where "m s = (Inl e, s1)" and "h e s1 = (r, s')"
        | (returned) x where "m s = (Inr x, s')" and "r = Inr x"
  using assms by (auto simp: try_except_def split: prod.splits sum.splits)

lemma emit_step: "emit ev s = (r, s') \<Longrightarrow> r = Inr () \<and> s' = s\<lparr>trace := trace s @ [ev]\<rparr>"
  by (auto simp: emit_def)

lemma outside_step:
  "outside ev call s = (r, s') \<Longrightarrow> trace s' = trace s @ [ev] \<and> (r, world s') = call (world s)"
  by (auto simp: outside_def split: prod.splits)

lemma llm_step:
  "llm env p s = (r, s') \<Longrightarrow>
     trace s' = trace s @ [LLMRequest p] \<and> (r, world s') = get_llm_response env p (world s)"
  unfolding llm_def by (rule outside_step)

lemma eval_in_step: "eval_in v s = (r, s') \<Longrightarrow> r = v \<and> s' = s"
  by (auto simp: eval_in_def)

lemma ret_step: "ret v s = (r, s') \<Longrightarrow> r = Inr v \<and> s' = s"
  by (auto simp: ret_def)

lemmas action_defs = seq_def ret_def eval_in_def emit_def outside_def try_except_def llm_def

lemmas demo_defs = demo_env_def demo_respond_def demo_loads_def disk_write_def disk_full_def
  start_def demo_relations_def zhong_li_ba_def shui_ku_diao_du_def

section \<open>The storage writer\<close>

lemma save_reaches_write:
  assumes "save_json_to_file env data dir s = (r, s')"
  shows "\<exists>evs. trace s' = trace s @ evs \<and> ((\<forall>p v. Saving p v \<notin> set evs) \<or> r = Inr ())"
  using assms unfolding save_json_to_file_def Let_def
  by (auto elim!: seqE try_exceptE dest!: emit_step outside_step eval_in_step ret_step split: if_splits)

lemma save_events:
  assumes "save_json_to_file env data dir s = (r, s')"
  shows "\<exists>evs. trace s' = trace s @ evs \<and> ((\<forall>e. ErrorSaving e \<notin> set evs) \<or> r = Inr ())"
  using assms unfolding save_json_to_file_def Let_def
  by (auto elim!: seqE try_exceptE dest!: emit_step outside_step eval_in_step ret_step split: if_splits)

lemma process_entity_events:
  assumes "process_entity env n roster s = (r, s')"
  shows "\<exists>evs. trace s' = trace s @ evs \<and>
           ((\<forall>e. ErrorSaving e \<notin> set evs) \<or> (r = Inr () \<and> last evs = SuccessfullyProcessed n))"
  using assms unfolding process_entity_def Let_def
  by (auto elim!: seqE dest!: emit_step outside_step eval_in_step llm_step save_events split: if_splits)

lemma unknown_file: "json_filename env (JStr k_unknown_entity) = ascii ''unknown_entity.json''"
  by (simp add: json_filename_def k_unknown_entity_def ascii_def)

text \<open>
  Claim C8. The storage writer never lets a write failure out. When the output directory
  exists and opening or writing the file raises, \<open>save_json_to_file\<close> prints the error and
  returns normally; whatever its arguments, once it has come to the write it returns
  normally. So a run of \<open>process_entity\<close> in which the save reported an error still returns
  normally and ends with the message that the entity was successfully processed.
\<close>

theorem save_json_to_file_catches_write_failure:
  "(path_exists env dir (world s) \<and>
    write_json env (os_path_join dir (json_filename env (dict_get d k_entity_id (JStr k_unknown_entity))))
      (JObj d) (world s) = (Inl e, w') \<longrightarrow>
    save_json_to_file env (JObj d) dir s =
      (Inr (), \<lparr>world = w',
                trace = trace s @
                  [Saving (os_path_join dir (json_filename env (dict_get d k_entity_id (JStr k_unknown_entity)))) (JObj d),
                   ErrorSaving e]\<rparr>)) \<and>
   (save_json_to_file env data dir s = (r, s') \<and> trace s' = trace s @ evs \<and> Saving p v \<in> set evs \<longrightarrow>
    r = Inr ()) \<and>
   (process_entity env n roster s = (r', s'') \<and> trace s'' = trace s @ evs' \<and> ErrorSaving e' \<in> set evs' \<longrightarrow>
    r' = Inr () \<and> last evs' = SuccessfullyProcessed n)"
proof (intro conjI impI)
  assume "path_exists env dir (world s) \<and>
    write_json env (os_path_join dir (json_filename env (dict_get d k_entity_id (JStr k_unknown_entity))))
      (JObj d) (world s) = (Inl e, w')"
  then show "save_json_to_file env (JObj d) dir s =
      (Inr (), \<lparr>world = w',
                trace = trace s @
                  [Saving (os_path_join dir (json_filename env (dict_get d k_entity_id (JStr k_unknown_entity)))) (JObj d),
                   ErrorSaving e]\<rparr>)"
    by (simp add: save_json_to_file_def action_defs py_get_def dict_get_def Let_def)
next
  assume a: "save_json_to_file env data dir s = (r, s') \<and> trace s' = trace s @ evs \<and> Saving p v \<in> set evs"
  then show "r = Inr ()" using save_reaches_write [of env data dir s r s'] by auto
next
  assume a: "process_entity env n roster s = (r', s'') \<and> trace s'' = trace s @ evs' \<and> ErrorSaving e' \<in> set evs'"
  then show "r' = Inr ()" using process_entity_events [of env n roster s r' s''] by auto
  from a show "last evs' = SuccessfullyProcessed n"
    using process_entity_events [of env n roster s r' s''] by auto
qed

text \<open>
  Claim C9. A record without the \<open>entity_id\<close> key is not rejected: once the output directory
  is there (it exists, or \<open>os.makedirs\<close> creates it), the record is written to the file
  \<open>unknown_entity.json\<close> of that directory.
\<close>

theorem save_json_to_file_unknown_entity:
  assumes "map_of d k_entity_id = None"
    and "path_exists env dir (world s) \<and> w1 = world s \<and> evs = [] \<or>
         \<not> path_exists env dir (world s) \<and> makedirs env dir (world s) = (Inr (), w1) \<and>
         evs = [Makedirs dir]"
    and "write_json env (os_path_join dir (ascii ''unknown_entity.json'')) (JObj d) w1 = (Inr (), w2)"
  shows "save_json_to_file env (JObj d) dir s =
     (Inr (), \<lparr>world = w2, trace = trace s @ evs @
        [Saving (os_path_join dir (ascii ''unknown_entity.json'')) (JObj d), SaveSuccessful]\<rparr>)"
  using assms by (auto simp add: save_json_to_file_def action_defs py_get_def Let_def unknown_file)

lemma output_unknown:
  "os_path_join OUTPUT_DIR (ascii ''unknown_entity.json'') = ascii ''output/unknown_entity.json''"
  by (simp add: os_path_join_def OUTPUT_DIR_def ascii_def)

theorem save_json_to_file_unknown_entity_witness:
  "save_json_to_file (demo_env [] [] (\<lambda>p. Inr (demo_respond p)) (demo_loads JNull) disk_write)
     (JObj [(k_label, JStr zhong_li_ba)]) OUTPUT_DIR start =
   (Inr (), \<lparr>world = [(ascii ''output/unknown_entity.json'', JObj [(k_label, JStr zhong_li_ba)])],
             trace = [Saving (ascii ''output/unknown_entity.json'') (JObj [(k_label, JStr zhong_li_ba)]),
                      SaveSuccessful]\<rparr>)"
proof -
  let ?env = "demo_env [] [] (\<lambda>p. Inr (demo_respond p)) (demo_loads JNull) disk_write"
  have h1: "map_of [(k_label, JStr zhong_li_ba)] k_entity_id = None"
    by (simp add: k_label_def k_entity_id_def ascii_eq_iff)
  have h2: "path_exists ?env OUTPUT_DIR (world start) \<and> [] = world start \<and> [] = [] \<or>
         \<not> path_exists ?env OUTPUT_DIR (world start) \<and>
         makedirs ?env OUTPUT_DIR (world start) = (Inr (), []) \<and> [] = [Makedirs OUTPUT_DIR]"
    by (simp add: demo_env_def start_def)
  have h3: "write_json ?env (os_path_join OUTPUT_DIR (ascii ''unknown_entity.json''))
              (JObj [(k_label, JStr zhong_li_ba)]) [] =
            (Inr (), [(ascii ''output/unknown_entity.json'', JObj [(k_label, JStr zhong_li_ba)])])"
    by (simp add: demo_env_def disk_write_def output_unknown)
  show ?thesis
    using save_json_to_file_unknown_entity [OF h1 h2 h3]
    by (simp add: output_unknown start_def)
qed

lemmas key_defs2 = key_defs k_primary_type_def k_sub_type_def k_target_entity_id_def
  k_target_label_def k_relationship_type_def k_unknown_entity_def k_Unknown_def

text \<open>The run of one entity on the full disk, from the save on.\<close>

lemma full_disk_run:
  "fst (process_entity full_disk_env shui_ku_diao_du [shui_ku_diao_du] start) = Inr () \<and>
   world (snd (process_entity full_disk_env shui_ku_diao_du [shui_ku_diao_du] start)) = [] \<and>
   drop 7 (trace (snd (process_entity full_disk_env shui_ku_diao_du [shui_ku_diao_du] start))) =
     [Saving (ascii ''output/ZhongLiBa.json'') (JObj shallow_record), ErrorSaving OSError,
      SuccessfullyProcessed shui_ku_diao_du]"
  by (simp add: process_entity_def save_json_to_file_def action_defs full_disk_env_def demo_defs
      py_strip_def is_space_def py_get_def py_setitem_def assemble_json_def dict_get_def
      validate_schema_def MASTER_SCHEMA_required_def MASTER_SCHEMA_properties_def
      key_defs2 ascii_eq_iff Let_def json_filename_def os_path_join_def OUTPUT_DIR_def
      shallow_record_def ascii_def)

theorem save_json_to_file_catches_write_failure_witness:
  "fst (process_entity full_disk_env shui_ku_diao_du [shui_ku_diao_du] start) = Inr () \<and>
   ErrorSaving OSError \<in> set (trace (snd (process_entity full_disk_env shui_ku_diao_du [shui_ku_diao_du] start))) \<and>
   last (trace (snd (process_entity full_disk_env shui_ku_diao_du [shui_ku_diao_du] start))) =
     SuccessfullyProcessed shui_ku_diao_du \<and>
   world (snd (process_entity full_disk_env shui_ku_diao_du [shui_ku_diao_du] start)) = []"
proof -
  obtain r s' where run: "process_entity full_disk_env shui_ku_diao_du [shui_ku_diao_du] start = (r, s')"
    by (cases "process_entity full_disk_env shui_ku_diao_du [shui_ku_diao_du] start")
  have d: "drop 7 (trace s') =
     [Saving (ascii ''output/ZhongLiBa.json'') (JObj shallow_record), ErrorSaving OSError,
      SuccessfullyProcessed shui_ku_diao_du]"
    and w: "world s' = []"
    using full_disk_run run by simp_all
  have m: "ErrorSaving OSError \<in> set (trace s')"
    using d by (metis in_set_dropD list.set_intros(1) list.set_intros(2))
  have t: "trace s' = trace start @ trace s'" by (simp add: start_def)
  have "r = Inr () \<and> last (trace s') = SuccessfullyProcessed shui_ku_diao_du"
    using save_json_to_file_catches_write_failure
      [of full_disk_env OUTPUT_DIR start "[]" OSError "[]" JNull "Inr ()" start "[]" "[]" JNull
          shui_ku_diao_du "[shui_ku_diao_du]" r s' "trace s'" OSError]
      run t m by blast
  then show ?thesis using run m w by simp
qed

section \<open>The per-entity pipeline\<close>

text \<open>
  Claim C3. When the retrieval returns a text that is empty or consists of whitespace only,
  \<open>process_entity\<close> returns right after it: the trace of the run is the query-augmentation
  request, the retrieval and the message that no information was found, the world is the
  one the retrieval left, and so no later stage runs and nothing is saved.
\<close>

theorem process_entity_stops_without_text:
  assumes "get_llm_response env (QUERY_AUGMENTATION_PROMPT entity_name) (world s) = (Inr queries_str, w1)"
    and "json_loads env queries_str = Inr queries"
    and "crawl_web env queries w1 = (Inr raw_text, w2)"
    and "list_all is_space raw_text"
  shows "process_entity env entity_name roster s =
           (Inr (), \<lparr>world = w2,
                     trace = trace s @ [Processing entity_name,
                                        LLMRequest (QUERY_AUGMENTATION_PROMPT entity_name),
                                        Crawl queries,
                                        NoInformationFound entity_name]\<rparr>)"
proof -
  have "py_strip raw_text = []" using assms(4) by (simp add: py_strip_empty_iff list_all_iff)
  then show ?thesis
    unfolding process_entity_def using assms(1-3)
    by (simp add: action_defs)
qed

theorem process_entity_stops_without_text_witness:
  "process_entity blank_env zhong_li_ba three_entities start =
     (Inr (), \<lparr>world = [],
               trace = [Processing zhong_li_ba,
                        LLMRequest (QUERY_AUGMENTATION_PROMPT zhong_li_ba),
                        Crawl demo_queries,
                        NoInformationFound zhong_li_ba]\<rparr>)"
proof -
  have h1: "get_llm_response blank_env (QUERY_AUGMENTATION_PROMPT zhong_li_ba) (world start) =
              (Inr (ascii ''queries''), [])"
    by (simp add: blank_env_def demo_env_def demo_respond_def start_def)
  have h2: "json_loads blank_env (ascii ''queries'') = Inr demo_queries"
    by (simp add: blank_env_def demo_env_def demo_loads_def demo_queries_def)
  have h3: "crawl_web blank_env demo_queries [] = (Inr blank_text, [])"
    by (simp add: blank_env_def demo_env_def)
  have h4: "list_all is_space blank_text"
    by (simp add: blank_text_def is_space_def)
  show ?thesis
    using process_entity_stops_without_text [OF h1 h2 h3 h4, of three_entities]
    by (simp add: start_def)
qed

section \<open>The driver\<close>

lemma entities_processed_append:
  "entities_processed (xs @ ys) = entities_processed xs @ entities_processed ys"
  by (induction xs rule: entities_processed.induct) auto

lemma save_quiet:
  assumes "save_json_to_file env data dir s = (r, s')"
  shows "entities_processed (trace s') = entities_processed (trace s)"
  using assms unfolding save_json_to_file_def Let_def
  by (auto elim!: seqE try_exceptE dest!: emit_step outside_step eval_in_step ret_step
      split: if_splits simp: entities_processed_append)

lemma process_entity_processed:
  assumes "process_entity env n r s = (res, s')"
  shows "entities_processed (trace s') = entities_processed (trace s) @ [n]"
  using assms unfolding process_entity_def Let_def
  by (auto elim!: seqE dest!: emit_step outside_step eval_in_step llm_step save_quiet
      split: if_splits simp: entities_processed_append)

lemma guarded_step:
  assumes "try_except (process_entity env n r) (\<lambda>e. emit (CriticalError n e)) s = (res, s')"
  shows "res = Inr () \<and> entities_processed (trace s') = entities_processed (trace s) @ [n]"
  using assms
  by (auto elim!: try_exceptE dest!: emit_step process_entity_processed simp: entities_processed_append)

lemma for_entity_name_returns:
  "fst (for_entity_name env r es s) = Inr ()"
proof (induction es arbitrary: s)
  case Nil
  show ?case by (simp add: ret_def)
next
  case (Cons n es)
  obtain res s' where g: "try_except (process_entity env n r) (\<lambda>e. emit (CriticalError n e)) s = (res, s')"
    by (cases "try_except (process_entity env n r) (\<lambda>e. emit (CriticalError n e)) s")
  have "res = Inr ()" using guarded_step [OF g] by simp
  then show ?case using g Cons.IH [of s'] by (simp add: seq_def)
qed

lemma for_entity_name_processed:
  "entities_processed (trace (snd (for_entity_name env r es s))) = entities_processed (trace s) @ es"
proof (induction es arbitrary: s)
  case Nil
  show ?case by (simp add: ret_def)
next
  case (Cons n es)
  obtain res s' where g: "try_except (process_entity env n r) (\<lambda>e. emit (CriticalError n e)) s = (res, s')"
    by (cases "try_except (process_entity env n r) (\<lambda>e. emit (CriticalError n e)) s")
  have "res = Inr ()" and "entities_processed (trace s') = entities_processed (trace s) @ [n]"
    using guarded_step [OF g] by simp_all
  then show ?case using g Cons.IH [of s'] by (simp add: seq_def)
qed

lemma for_entity_name_caught:
  assumes "process_entity env n r s = (Inl e, s')"
  shows "for_entity_name env r (n # rest) s =
           for_entity_name env r rest (s'\<lparr>trace := trace s' @ [CriticalError n e]\<rparr>)"
  using assms by (simp add: seq_def try_except_def emit_def)

lemma load_returns:
  "\<exists>roster. fst (load_all_entities_from_excel env p s) = Inr roster"
  by (auto simp: load_all_entities_from_excel_def action_defs split: prod.splits sum.splits)

lemma load_roster:
  assumes "read_excel env p (world s) = (Inr roster, w)"
  shows "load_all_entities_from_excel env p s =
     (Inr roster, s\<lparr>world := w, trace := trace s @ [LoadingEntities p]\<rparr>)"
  using assms by (simp add: load_all_entities_from_excel_def action_defs)

lemma main_returns: "fst (main env s) = Inr ()"
proof -
  obtain res s1 where l: "load_all_entities_from_excel env INPUT_EXCEL_FILE s = (res, s1)"
    by (cases "load_all_entities_from_excel env INPUT_EXCEL_FILE s")
  obtain roster where r: "res = Inr roster"
    using load_returns [of env INPUT_EXCEL_FILE s] l by auto
  show ?thesis
  proof (cases "roster = []")
    case True
    then show ?thesis using l r by (simp add: main_def seq_def emit_def)
  next
    case False
    let ?s2 = "s1\<lparr>trace := trace s1 @ [Found (length roster) (length (take 2 roster))]\<rparr>"
    obtain res3 s3 where f: "for_entity_name env roster (take 2 roster) ?s2 = (res3, s3)"
      by (cases "for_entity_name env roster (take 2 roster) ?s2")
    have "res3 = Inr ()" using for_entity_name_returns [of env roster "take 2 roster" ?s2] f by simp
    then show ?thesis using l r False f
      by (simp add: main_def seq_def emit_def Let_def)
  qed
qed

lemma main_processed:
  assumes "read_excel env INPUT_EXCEL_FILE (world s) = (Inr roster, w)" and "roster \<noteq> []"
  shows "entities_processed (trace (snd (main env s))) = entities_processed (trace s) @ take 2 roster"
proof -
  let ?s1 = "s\<lparr>world := w, trace := trace s @ [LoadingEntities INPUT_EXCEL_FILE]\<rparr>"
  let ?s2 = "?s1\<lparr>trace := trace ?s1 @ [Found (length roster) (length (take 2 roster))]\<rparr>"
  obtain res3 s3 where f: "for_entity_name env roster (take 2 roster) ?s2 = (res3, s3)"
    by (cases "for_entity_name env roster (take 2 roster) ?s2")
  have r3: "res3 = Inr ()" using for_entity_name_returns [of env roster "take 2 roster" ?s2] f by simp
  have "entities_processed (trace s3) = entities_processed (trace ?s2) @ take 2 roster"
    using for_entity_name_processed [of env roster "take 2 roster" ?s2] f by simp
  then have p3: "entities_processed (trace s3) = entities_processed (trace s) @ take 2 roster"
    by (simp add: entities_processed_append)
  have "main env s = (Inr (), s3\<lparr>trace := trace s3 @ [Finished]\<rparr>)"
    using load_roster [OF assms(1)] assms(2) f r3
    by (simp add: main_def seq_def emit_def Let_def)
  then show ?thesis using p3 by (simp add: entities_processed_append)
qed

text \<open>
  A roster of three entities: the driver starts the pipeline for the first two, and never
  for the third.
\<close>

theorem main_skips_third_entity:
  "read_excel blank_env INPUT_EXCEL_FILE (world start) = (Inr three_entities, []) \<and>
   three_entities = [zhong_li_ba, shui_ku_diao_du, ascii ''flood''] \<and>
   entities_processed (trace (snd (main blank_env start))) = [zhong_li_ba, shui_ku_diao_du] \<and>
   ascii ''flood'' \<notin> set (entities_processed (trace (snd (main blank_env start))))"
proof -
  have h: "read_excel blank_env INPUT_EXCEL_FILE (world start) = (Inr three_entities, [])"
    by (simp add: blank_env_def demo_env_def start_def)
  have n: "three_entities \<noteq> []" by (simp add: three_entities_def)
  have p: "entities_processed (trace (snd (main blank_env start))) = [zhong_li_ba, shui_ku_diao_du]"
    using main_processed [OF h n] by (simp add: start_def three_entities_def)
  have "ascii ''flood'' \<noteq> zhong_li_ba" "ascii ''flood'' \<noteq> shui_ku_diao_du"
    by (simp_all add: zhong_li_ba_def shui_ku_diao_du_def ascii_def)
  then show ?thesis using h p by (simp add: three_entities_def)
qed

lemma for_entity_name_runs:
  "for_entity_name env roster entities s = (Inr (), foldl (after_entity env roster) s entities)"
proof (induction entities arbitrary: s)
  case Nil
  show ?case by (simp add: ret_def)
next
  case (Cons n entities)
  show ?case
    by (simp add: seq_def try_except_def emit_def after_entity_def Cons.IH
        split: prod.split sum.split)
qed

lemma main_runs:
  assumes "read_excel env INPUT_EXCEL_FILE (world s) = (Inr roster, w)" and "roster \<noteq> []"
  shows "main env s =
           emit Finished
             (foldl (after_entity env roster)
                (s\<lparr>world := w,
                   trace := trace s @ [LoadingEntities INPUT_EXCEL_FILE,
                                       Found (length roster) (length (take 2 roster))]\<rparr>)
                (take 2 roster))"
  using load_roster [OF assms(1)] assms(2)
  by (simp add: main_def seq_def emit_def Let_def for_entity_name_runs)

text \<open>
  Claim C2, as the code has it. For every non-empty roster the loader returns, the driver
  runs \<open>process_entity\<close> for the first two entities of the roster (the whole roster when
  it has at most two), one after the other in roster order, each with the full roster as
  its context, and for no other entity: the run of \<open>main\<close> is the loading of the roster,
  these runs with their errors caught, and the closing message.
\<close>

theorem main_processes_first_two:
  assumes "read_excel env INPUT_EXCEL_FILE (world s) = (Inr roster, w)" and "roster \<noteq> []"
  shows "main env s =
           emit Finished
             (foldl (after_entity env roster)
                (s\<lparr>world := w,
                   trace := trace s @ [LoadingEntities INPUT_EXCEL_FILE,
                                       Found (length roster) (length (take 2 roster))]\<rparr>)
                (take 2 roster)) \<and>
         entities_processed (trace (snd (main env s))) = entities_processed (trace s) @ take 2 roster"
  using main_runs [OF assms] main_processed [OF assms] by simp

text \<open>The run of one entity in the world where every stage succeeds.\<close>

lemma working_run:
  "process_entity working_env n three_entities s =
     (Inr (),
      s\<lparr>world := AList.update (ascii ''output/ZhongLiBa.json'') (JObj shallow_record) (world s),
        trace := trace s @
          [Processing n,
           LLMRequest (QUERY_AUGMENTATION_PROMPT n),
           Crawl demo_queries,
           LLMRequest (TYPING_AND_DEFINITION_PROMPT n (ascii ''text'')),
           LLMRequest (ATTRIBUTE_EXTRACTION_PROMPT n (JStr (ascii ''EngineeringProcess''))),
           LLMRequest (RELATION_INFERENCE_PROMPT n three_entities),
           LLMRequest (FINAL_VALIDATION_PROMPT n
             (assemble_json working_env n SOURCE_FILENAME demo_info demo_relations)),
           Saving (ascii ''output/ZhongLiBa.json'') (JObj shallow_record),
           SaveSuccessful,
           SuccessfullyProcessed n]\<rparr>)"
  by (simp add: process_entity_def save_json_to_file_def action_defs working_env_def demo_defs
      demo_queries_def demo_info_def
      py_strip_def is_space_def py_get_def py_setitem_def assemble_json_def dict_get_def
      validate_schema_def MASTER_SCHEMA_required_def MASTER_SCHEMA_properties_def
      key_defs2 ascii_eq_iff Let_def json_filename_def os_path_join_def OUTPUT_DIR_def
      shallow_record_def ascii_def)

theorem main_processes_first_two_witness:
  "main working_env start =
     emit Finished
       (after_entity working_env three_entities
          (after_entity working_env three_entities
             \<lparr>world = [], trace = [LoadingEntities INPUT_EXCEL_FILE, Found 3 2]\<rparr>
             zhong_li_ba)
          shui_ku_diao_du) \<and>
   entities_processed (trace (snd (main working_env start))) = [zhong_li_ba, shui_ku_diao_du] \<and>
   LLMRequest (RELATION_INFERENCE_PROMPT zhong_li_ba three_entities)
     \<in> set (trace (snd (main working_env start))) \<and>
   LLMRequest (RELATION_INFERENCE_PROMPT shui_ku_diao_du three_entities)
     \<in> set (trace (snd (main working_env start))) \<and>
   last (trace (snd (main working_env start))) = Finished \<and>
   world (snd (main working_env start)) = [(ascii ''output/ZhongLiBa.json'', JObj shallow_record)]"
proof -
  have h: "read_excel working_env INPUT_EXCEL_FILE (world start) = (Inr three_entities, [])"
    by (simp add: working_env_def demo_env_def start_def)
  have n: "three_entities \<noteq> []" by (simp add: three_entities_def)
  have t: "take 2 three_entities = [zhong_li_ba, shui_ku_diao_du]" "length three_entities = 3"
    by (simp_all add: three_entities_def)
  note m = main_processes_first_two [OF h n]
  have a: "main working_env start =
     emit Finished
       (after_entity working_env three_entities
          (after_entity working_env three_entities
             \<lparr>world = [], trace = [LoadingEntities INPUT_EXCEL_FILE, Found 3 2]\<rparr>
             zhong_li_ba)
          shui_ku_diao_du)"
    using m [THEN conjunct1] unfolding t start_def by (simp add: numeral_2_eq_2)
  have b: "entities_processed (trace (snd (main working_env start))) = [zhong_li_ba, shui_ku_diao_du]"
    using m [THEN conjunct2] unfolding t start_def by simp
  show ?thesis
    unfolding b unfolding a
    by (simp add: after_entity_def working_run emit_def)
qed

text \<open>
  Claim C7. No failure of one entity aborts the run: \<open>main\<close> and its loop always return
  normally, the loop starts the pipeline of every entity it is given whatever happened to
  the ones before, and when the pipeline of an entity raises, the loop prints the error and
  goes on with the next entity from the state the failed run left.
\<close>

theorem driver_isolates_entity_failures:
  "fst (main env s) = Inr () \<and>
   fst (for_entity_name env roster entities s) = Inr () \<and>
   entities_processed (trace (snd (for_entity_name env roster entities s))) =
     entities_processed (trace s) @ entities \<and>
   (process_entity env entity_name roster s = (Inl e, s') \<longrightarrow>
    for_entity_name env roster (entity_name # rest) s =
      for_entity_name env roster rest (s'\<lparr>trace := trace s' @ [CriticalError entity_name e]\<rparr>))"
  using main_returns for_entity_name_returns for_entity_name_processed for_entity_name_caught
  by blast

theorem driver_isolates_entity_failures_witness:
  "process_entity timeout_env zhong_li_ba [zhong_li_ba, shui_ku_diao_du] start =
     (Inl (OtherException (ascii ''timeout'')),
      \<lparr>world = [], trace = [Processing zhong_li_ba, LLMRequest (QUERY_AUGMENTATION_PROMPT zhong_li_ba)]\<rparr>) \<and>
   for_entity_name timeout_env [zhong_li_ba, shui_ku_diao_du] [zhong_li_ba, shui_ku_diao_du] start =
     (Inr (),
      \<lparr>world = [],
       trace = [Processing zhong_li_ba, LLMRequest (QUERY_AUGMENTATION_PROMPT zhong_li_ba),
                CriticalError zhong_li_ba (OtherException (ascii ''timeout'')),
                Processing shui_ku_diao_du, LLMRequest (QUERY_AUGMENTATION_PROMPT shui_ku_diao_du),
                Crawl demo_queries, NoInformationFound shui_ku_diao_du]\<rparr>)"
proof -
  have f: "process_entity timeout_env zhong_li_ba [zhong_li_ba, shui_ku_diao_du] start =
     (Inl (OtherException (ascii ''timeout'')),
      \<lparr>world = [], trace = [Processing zhong_li_ba, LLMRequest (QUERY_AUGMENTATION_PROMPT zhong_li_ba)]\<rparr>)"
    by (simp add: process_entity_def action_defs timeout_env_def demo_env_def start_def)
  have d: "QUERY_AUGMENTATION_PROMPT shui_ku_diao_du \<noteq> QUERY_AUGMENTATION_PROMPT zhong_li_ba"
    by (simp add: zhong_li_ba_def shui_ku_diao_du_def)
  have g: "for_entity_name timeout_env [zhong_li_ba, shui_ku_diao_du] [shui_ku_diao_du]
         \<lparr>world = [], trace = [Processing zhong_li_ba, LLMRequest (QUERY_AUGMENTATION_PROMPT zhong_li_ba),
                CriticalError zhong_li_ba (OtherException (ascii ''timeout''))]\<rparr> =
     (Inr (),
      \<lparr>world = [],
       trace = [Processing zhong_li_ba, LLMRequest (QUERY_AUGMENTATION_PROMPT zhong_li_ba),
                CriticalError zhong_li_ba (OtherException (ascii ''timeout'')),
                Processing shui_ku_diao_du, LLMRequest (QUERY_AUGMENTATION_PROMPT shui_ku_diao_du),
                Crawl demo_queries, NoInformationFound shui_ku_diao_du]\<rparr>)"
    using d
    by (simp add: process_entity_def action_defs timeout_env_def demo_env_def demo_respond_def
        demo_loads_def demo_queries_def blank_text_def py_strip_def is_space_def)
  show ?thesis
    using driver_isolates_entity_failures
      [of timeout_env start "[zhong_li_ba, shui_ku_diao_du]" "[]" zhong_li_ba
          "OtherException (ascii ''timeout'')"
          "\<lparr>world = [], trace = [Processing zhong_li_ba, LLMRequest (QUERY_AUGMENTATION_PROMPT zhong_li_ba)]\<rparr>"
          "[shui_ku_diao_du]"]
      f g by simp
qed

end
